theory Spec2Isabelle
  imports Complex_Main "HOL-Library.Log_Nat"
begin

section \<open>Device resolution (GPU notebook)\<close>

text \<open>
  The notebook on GPUs defines five small functions over the framework's device
  handles:
  \<^verbatim>\<open>
  def cpu():  return torch.device('cpu')
  def gpu(i=0):  return torch.device(f'cuda:{i}')
  def num_gpus():  return torch.cuda.device_count()
  def try_gpu(i=0):
      """Return gpu(i) if exists, otherwise return cpu()"""
      if num_gpus() >= i + 1:
          return gpu(i)
      return cpu()
  def try_all_gpus():
      """Return all available GPUs, or [cpu(), ], if no GPU exists."""
      return [gpu(i) for i in range(num_gpus())]
  \<close>
  A device handle is a tagged value. Indices are Python integers, hence \<open>int\<close>;
  the handle of a GPU is made from an index \<open>i \<ge> 0\<close> (the comprehensions below
  take their indices from \<open>range\<close>, and the statements about \<open>try_gpu\<close> are for
  \<open>i \<ge> 0\<close>), and making a handle does not look at the devices present.
  The number of devices the framework reports is the only thing these functions read
  from their environment; it is a field of the record \<open>runtime\<close>, passed to every
  function that calls \<open>num_gpus()\<close>, so that "at call time" is the record the call
  receives. The framework's count is never negative, hence \<open>nat\<close>.
\<close>

datatype device = CPU | GPU int

record runtime =
  cuda_device_count :: nat

definition cpu :: device where
  "cpu = CPU"

definition gpu :: "int \<Rightarrow> device" where
  "gpu i = GPU i"

definition num_gpus :: "runtime \<Rightarrow> int" where
  "num_gpus rt = int (cuda_device_count rt)"

text \<open>Python's \<open>range(n)\<close>: the integers \<open>0, ..., n - 1\<close>, none when \<open>n \<le> 0\<close>.\<close>

definition range_py :: "int \<Rightarrow> int list" where
  "range_py n = [0..n - 1]"

definition try_gpu :: "runtime \<Rightarrow> int \<Rightarrow> device" where
  "try_gpu rt i = (if num_gpus rt \<ge> i + 1 then gpu i else cpu)"

definition try_all_gpus :: "runtime \<Rightarrow> device list" where
  "try_all_gpus rt = map gpu (range_py (num_gpus rt))"

section \<open>Array-like values on devices\<close>

text \<open>
  The notebook never looks inside a tensor: it creates tensors on a device, moves them
  (\<open>Y.cuda(0)\<close>, \<open>d2l.to(a, device)\<close>) and adds them (\<open>X + Z\<close>). An array-like
  value is therefore a device tag and a content of any type. Whether a move returns
  "the same object" is a question of identity, which a HOL value does not have, so the
  values live in a store and the program handles references into it: a reference is
  an index of the store, and a new object is appended at the end. A reference beyond
  the store has no counterpart in Python, where every reference is live; the model
  answers it with \<open>InvalidReference\<close> and the claims are stated for live references.
\<close>

record 'a array =
  device :: device
  content :: 'a

type_synonym 'a store = "'a array list"

type_synonym ref = nat

datatype error =
    DeviceMismatch device device
  | InvalidReference ref

text \<open>
  Modelled from the spec: the framework's relocation primitive (\<open>Tensor.to\<close>, reached
  through \<open>d2l.to\<close>, and \<open>Tensor.cuda\<close>), which the notebook calls and does not
  define. The spec: "Relocation is defined as a copy when source and destination
  devices differ, and as a no-op (returning the same value, not a fresh copy) when
  source and destination already match"; the notebook: "It will return \<open>Z\<close> instead of
  making a copy and allocating new memory".
\<close>

definition to :: "'a store \<Rightarrow> ref \<Rightarrow> device \<Rightarrow> (error + ref) \<times> 'a store" where
  "to st a d =
     (if a < length st then
        (if device (st ! a) = d then (Inr a, st)
         else (Inr (length st), st @ [(st ! a)\<lparr>device := d\<rparr>]))
      else (Inl (InvalidReference a), st))"

text \<open>
  Modelled from the spec: \<open>Y.cuda(i)\<close>, the relocation to the \<open>i\<close>-th GPU.
\<close>

definition cuda :: "'a store \<Rightarrow> ref \<Rightarrow> int \<Rightarrow> (error + ref) \<times> 'a store" where
  "cuda st a i = to st a (gpu i)"

text \<open>
  Modelled from the spec: the framework's binary operation on two tensors (the
  notebook's \<open>X + Z\<close>), which the notebook calls and does not define. The spec:
  "Combining two array-like values on differing devices fails; combining two on the
  same device succeeds and produces a value on that device", and "Cross-device
  arithmetic rejection should be modeled as an explicit precondition check returning a
  typed error result". What the operation does to the contents is the parameter \<open>f\<close>;
  the spec puts no condition on the contents (such as compatible shapes), and neither
  does this definition.
\<close>

definition combine ::
  "('a \<Rightarrow> 'a \<Rightarrow> 'a) \<Rightarrow> 'a store \<Rightarrow> ref \<Rightarrow> ref \<Rightarrow> (error + ref) \<times> 'a store" where
  "combine f st x y =
     (if \<not> x < length st then (Inl (InvalidReference x), st)
      else if \<not> y < length st then (Inl (InvalidReference y), st)
      else if device (st ! x) \<noteq> device (st ! y)
        then (Inl (DeviceMismatch (device (st ! x)) (device (st ! y))), st)
      else (Inr (length st),
            st @ [\<lparr>device = device (st ! x),
                   content = f (content (st ! x)) (content (st ! y))\<rparr>]))"

section \<open>The trainer's device list and batch preparation\<close>

text \<open>
  \<^verbatim>\<open>
  @d2l.add_to_class(d2l.Trainer)
  def __init__(self, max_epochs, num_gpus=0, gradient_clip_val=0):
      self.save_hyperparameters()
      self.gpus = [d2l.gpu(i) for i in range(min(num_gpus, d2l.num_gpus()))]

  @d2l.add_to_class(d2l.Trainer)
  def prepare_batch(self, batch):
      if self.gpus:
          batch = [d2l.to(a, self.gpus[0]) for a in batch]
      return batch
  \<close>
  \<open>save_hyperparameters\<close> stores the three arguments as attributes of the same
  names. The fields carry the prefix \<open>self_\<close> since \<open>num_gpus\<close> is also the name
  of the function above.
\<close>

record trainer =
  self_max_epochs :: int
  self_num_gpus :: int
  self_gradient_clip_val :: rat
  self_gpus :: "device list"

definition Trainer_init :: "runtime \<Rightarrow> int \<Rightarrow> int \<Rightarrow> rat \<Rightarrow> trainer" where
  "Trainer_init rt max_epochs n_gpus gradient_clip_val =
     \<lparr>self_max_epochs = max_epochs,
      self_num_gpus = n_gpus,
      self_gradient_clip_val = gradient_clip_val,
      self_gpus = map gpu (range_py (min n_gpus (num_gpus rt)))\<rparr>"

text \<open>The defaults of the signature: \<open>num_gpus=0, gradient_clip_val=0\<close>.\<close>

definition Trainer_init_default :: "runtime \<Rightarrow> int \<Rightarrow> trainer" where
  "Trainer_init_default rt max_epochs = Trainer_init rt max_epochs 0 0"

text \<open>
  The comprehension \<open>[d2l.to(a, dev) for a in batch]\<close>, left to right, threading the
  store; the first failing element ends it, as the exception would.
\<close>

fun to_each :: "'a store \<Rightarrow> ref list \<Rightarrow> device \<Rightarrow> (error + ref list) \<times> 'a store" where
  "to_each st [] d = (Inr [], st)"
| "to_each st (a # as) d =
     (case to st a d of
        (Inl e, st') \<Rightarrow> (Inl e, st')
      | (Inr a', st') \<Rightarrow>
          (case to_each st' as d of
             (Inl e, st'') \<Rightarrow> (Inl e, st'')
           | (Inr as', st'') \<Rightarrow> (Inr (a' # as'), st'')))"

definition prepare_batch ::
  "trainer \<Rightarrow> 'a store \<Rightarrow> ref list \<Rightarrow> (error + ref list) \<times> 'a store" where
  "prepare_batch self st batch =
     (if self_gpus self \<noteq> [] then to_each st batch (self_gpus self ! 0)
      else (Inr batch, st))"

section \<open>Mean imputation (data preprocessing notebook)\<close>

text \<open>
  The notebook fills the missing entries of its input columns in one line,
  \<^verbatim>\<open>
  inputs = inputs.fillna(inputs.mean())
  \<close>
  on the frame read from the four-row file (\<open>NumRooms\<close> is \<open>NaN, 2.0, 4.0, NaN\<close>).
  A column is a list of entries, \<open>None\<close> for a missing one; a frame is a list of named
  columns, and the result of \<open>mean()\<close> a list of named values. The columns of the
  notebook hold 64-bit floats (its tensor of the inputs prints \<open>dtype=torch.float64\<close>).
  A float is the rational number it stands for, and every operation of the library
  rounds its exact result to the nearest float.
\<close>

type_synonym column = "rat option list"


subsection \<open>Rounding to a 64-bit float\<close>





subsection \<open>The library's mean and fill\<close>

text \<open>\<open>present col\<close> are the entries of a column that are not missing, in order.\<close>

definition present :: "column \<Rightarrow> rat list" where
  "present col = concat (map (\<lambda>e. case e of None \<Rightarrow> [] | Some x \<Rightarrow> [x]) col)"







subsection \<open>The mean in exact arithmetic\<close>






section \<open>Tensors of scores and labels (classification notebooks)\<close>

text \<open>
  The accuracy helpers read the shape and the element type of their arguments, so a
  tensor is a shape, an element type and its elements in row-major order. Scores are
  rationals: exact numbers stand for the framework's floats, and \<open>NaN\<close> scores are
  outside this model. A tensor is \<open>consistent\<close> when it has as many elements as its
  shape says.
\<close>

datatype dtype = Int64 | Float32 | Bool

record tensor =
  shape :: "nat list"
  dtype :: dtype
  data :: "rat list"

definition numel :: "tensor \<Rightarrow> nat" where
  "numel t = prod_list (shape t)"

definition consistent :: "tensor \<Rightarrow> bool" where
  "consistent t = (length (data t) = numel t)"

datatype tensor_error =
    IndexError
  | ReshapeError
  | ShapeMismatch "nat list" "nat list"

text \<open>
  The mean of a tensor is a single number, or \<open>NaN\<close> when the tensor has no element
  (the framework's mean of nothing).
\<close>

datatype scalar = NaN | Value rat

subsection \<open>The framework's primitives\<close>

text \<open>
  The helpers are written with \<open>d2l.reshape\<close>, \<open>d2l.argmax\<close>, \<open>d2l.astype\<close>,
  \<open>==\<close> and \<open>d2l.reduce_mean\<close>, the framework's operations on tensors under
  the names of the book's library; the notebooks call them and do not define them.
\<close>

text \<open>
  Modelled from the spec: \<open>reshape\<close>, the framework's change of shape. A target
  shape may hold one \<open>-1\<close>, the dimension to infer from the number of elements; the
  target must account for every element, and the data is untouched.
\<close>

definition reshape :: "tensor \<Rightarrow> int list \<Rightarrow> tensor_error + tensor" where
  "reshape t dims =
     (let known = filter (\<lambda>d. d \<noteq> - 1) dims;
          holes = length dims - length known;
          p = prod_list known;
          n = int (numel t)
      in if list_ex (\<lambda>d. d < 0) known \<or> holes > 1 then Inl ReshapeError
         else if holes = 1 then
           (if p = 0 \<or> n mod p \<noteq> 0 then Inl ReshapeError
            else Inr (t\<lparr>shape := map (\<lambda>d. nat (if d = - 1 then n div p else d)) dims\<rparr>))
         else if p = n then Inr (t\<lparr>shape := map nat dims\<rparr>)
         else Inl ReshapeError)"

text \<open>
  Modelled from the spec: \<open>argmax\<close>, "the index of the maximum score along that
  axis; ties broken by lowest index (first-maximum convention)". \<open>first_argmax\<close> is
  the scan over one sequence of scores: it keeps the best score so far and its index,
  and replaces them only on a strictly greater score.
\<close>

fun argmax_scan :: "rat list \<Rightarrow> nat \<Rightarrow> rat \<Rightarrow> nat \<Rightarrow> nat" where
  "argmax_scan [] i best pos = pos"
| "argmax_scan (x # xs) i best pos =
     (if best < x then argmax_scan xs (Suc i) x i else argmax_scan xs (Suc i) best pos)"

fun first_argmax :: "rat list \<Rightarrow> nat" where
  "first_argmax [] = 0"
| "first_argmax (x # xs) = argmax_scan xs 1 x 0"

text \<open>
  Modelled from the spec: \<open>argmax\<close> along an axis of a tensor of any shape.
  Along axis \<open>axis\<close> of a tensor of shape \<open>pre @ [d] @ post\<close>, the element at
  position \<open>(o, j, r)\<close> (\<open>o\<close> over \<open>pre\<close>, \<open>r\<close> over \<open>post\<close>) is at offset
  \<open>(o * d + j) * prod post + r\<close>; the result has shape \<open>pre @ post\<close> and integer
  elements. An axis the tensor does not have, or one of length zero, is an error.
\<close>

definition lane :: "tensor \<Rightarrow> nat \<Rightarrow> nat \<Rightarrow> nat \<Rightarrow> rat list" where
  "lane t axis outer r =
     (let d = shape t ! axis; inner = prod_list (drop (Suc axis) (shape t))
      in map (\<lambda>j. data t ! ((outer * d + j) * inner + r)) [0..<d])"

definition argmax :: "tensor \<Rightarrow> nat \<Rightarrow> tensor_error + tensor" where
  "argmax t axis =
     (if \<not> axis < length (shape t) then Inl IndexError
      else if shape t ! axis = 0 then Inl IndexError
      else Inr \<lparr>shape = take axis (shape t) @ drop (Suc axis) (shape t),
                dtype = Int64,
                data = concat (map (\<lambda>outer.
                         map (\<lambda>r. of_nat (first_argmax (lane t axis outer r)))
                           [0..<prod_list (drop (Suc axis) (shape t))])
                         [0..<prod_list (take axis (shape t))])\<rparr>)"

text \<open>
  Modelled from the spec: \<open>astype\<close>, "Cast predicted labels to the ground-truth
  label's representation". A cast to the integer type drops the fraction (towards
  zero), a cast to the boolean type tells zero from non-zero, a cast to the float type
  keeps the number.
\<close>

fun cast :: "dtype \<Rightarrow> rat \<Rightarrow> rat" where
  "cast Int64 x = of_int (if 0 \<le> x then \<lfloor>x\<rfloor> else \<lceil>x\<rceil>)"
| "cast Float32 x = x"
| "cast Bool x = (if x = 0 then 0 else 1)"

definition astype :: "tensor \<Rightarrow> dtype \<Rightarrow> tensor" where
  "astype t d = t\<lparr>dtype := d, data := map (cast d) (data t)\<rparr>"

text \<open>
  Modelled from the spec: the elementwise \<open>==\<close>, "an elementwise boolean-equivalent
  correctness sequence", with "shape mismatch between predictions and labels, which
  signals an error". Two shapes match as the framework matches them: aligned at the
  last axis, each pair of lengths is equal or one of them is 1, and an axis of length 1
  is repeated. \<open>multi_indices\<close> lists the positions of the result in row-major
  order, \<open>offset\<close> is where a position is read in an operand.
\<close>

fun broadcast_rev :: "nat list \<Rightarrow> nat list \<Rightarrow> nat list option" where
  "broadcast_rev [] ys = Some ys"
| "broadcast_rev (x # xs) [] = Some (x # xs)"
| "broadcast_rev (x # xs) (y # ys) =
     (if x = y \<or> y = 1 then map_option ((#) x) (broadcast_rev xs ys)
      else if x = 1 then map_option ((#) y) (broadcast_rev xs ys)
      else None)"

definition broadcast_shapes :: "nat list \<Rightarrow> nat list \<Rightarrow> nat list option" where
  "broadcast_shapes s1 s2 = map_option rev (broadcast_rev (rev s1) (rev s2))"

fun multi_indices :: "nat list \<Rightarrow> nat list list" where
  "multi_indices [] = [[]]"
| "multi_indices (d # ds) = concat (map (\<lambda>i. map ((#) i) (multi_indices ds)) [0..<d])"

definition offset :: "nat list \<Rightarrow> nat list \<Rightarrow> nat" where
  "offset sh idx =
     foldl (\<lambda>acc (d, i). acc * d + (if d = 1 then 0 else i)) 0
       (zip sh (drop (length idx - length sh) idx))"

definition tensor_eq :: "tensor \<Rightarrow> tensor \<Rightarrow> tensor_error + tensor" where
  "tensor_eq a b =
     (case broadcast_shapes (shape a) (shape b) of
        None \<Rightarrow> Inl (ShapeMismatch (shape a) (shape b))
      | Some s \<Rightarrow>
          Inr \<lparr>shape = s, dtype = Bool,
               data = map (\<lambda>idx. if data a ! offset (shape a) idx = data b ! offset (shape b) idx
                                  then 1 else 0)
                        (multi_indices s)\<rparr>)"

text \<open>
  Modelled from the spec: \<open>reduce_mean\<close>, "reduce it to a single accuracy value by
  arithmetic mean".
\<close>

definition reduce_mean :: "tensor \<Rightarrow> scalar" where
  "reduce_mean t =
     (if data t = [] then NaN else Value (sum_list (data t) / of_nat (length (data t))))"

subsection \<open>The two accuracy helpers\<close>

text \<open>
  The classification notebook:
  \<^verbatim>\<open>
  @d2l.add_to_class(Classifier)
  def accuracy(self, Y_hat, Y, averaged=True):
      """Compute the number of correct predictions."""
      Y_hat = d2l.reshape(Y_hat, (-1, Y_hat.shape[-1]))
      preds = d2l.astype(d2l.argmax(Y_hat, axis=1), Y.dtype)
      compare = d2l.astype(preds == d2l.reshape(Y, -1), d2l.float32)
      return d2l.reduce_mean(compare) if averaged else compare
  \<close>
  It returns a mean or the tensor of comparisons; both helpers return a \<open>result\<close>.
  \<open>Y_hat.shape[-1]\<close> raises on a tensor without axes.
\<close>

datatype result = Averaged scalar | Elementwise tensor

definition Classifier_accuracy :: "tensor \<Rightarrow> tensor \<Rightarrow> bool \<Rightarrow> tensor_error + result" where
  "Classifier_accuracy Y_hat Y averaged =
     (if shape Y_hat = [] then Inl IndexError
      else case reshape Y_hat [- 1, int (last (shape Y_hat))] of
        Inl e \<Rightarrow> Inl e
      | Inr Y_hat' \<Rightarrow>
         (case argmax Y_hat' 1 of
            Inl e \<Rightarrow> Inl e
          | Inr am \<Rightarrow>
             (let preds = astype am (dtype Y) in
              case reshape Y [- 1] of
                Inl e \<Rightarrow> Inl e
              | Inr Y' \<Rightarrow>
                 (case tensor_eq preds Y' of
                    Inl e \<Rightarrow> Inl e
                  | Inr eq \<Rightarrow>
                     (let compare = astype eq Float32 in
                      Inr (if averaged then Averaged (reduce_mean compare)
                           else Elementwise compare))))))"

text \<open>
  The classification chapter of the book:
  \<^verbatim>\<open>
  @d2l.add_to_class(Classification)
  def accuracy(self, y_hat, y):
      """Compute the number of correct predictions."""
      if len(y_hat.shape) > 1 and y_hat.shape[1] > 1:
          y_hat = d2l.argmax(y_hat, axis=1)
      cmp = d2l.astype(y_hat, y.dtype) == y
      return d2l.reduce_mean(d2l.astype(cmp, d2l.float32))
  \<close>
\<close>

definition Classification_accuracy :: "tensor \<Rightarrow> tensor \<Rightarrow> tensor_error + result" where
  "Classification_accuracy y_hat y =
     (case (if length (shape y_hat) > 1 \<and> shape y_hat ! 1 > 1 then argmax y_hat 1
            else Inr y_hat) of
        Inl e \<Rightarrow> Inl e
      | Inr y_hat' \<Rightarrow>
         (case tensor_eq (astype y_hat' (dtype y)) y of
            Inl e \<Rightarrow> Inl e
          | Inr cmp \<Rightarrow> Inr (Averaged (reduce_mean (astype cmp Float32)))))"

subsection \<open>The vocabulary of the statements\<close>

text \<open>
  The statements about the helpers speak of the rows of a matrix of scores, of the
  first maximum of a row, of hard predictions and of correctness sequences in their
  own terms, which follow the words of the spec and not the code of the helpers:
  \<open>row t i\<close> is the \<open>i\<close>-th row of a tensor of two axes; \<open>first_max_at xs k\<close> says
  that \<open>k\<close> is the lowest index at which \<open>xs\<close> has its greatest element;
  \<open>hard_predictions\<close> are the indices of the first maxima of the rows; and
  \<open>correctness d preds labels\<close> is the sequence that holds, position by position, 1
  where the prediction cast to the labels' type \<open>d\<close> is the label, and 0 elsewhere.
\<close>

definition row :: "tensor \<Rightarrow> nat \<Rightarrow> rat list" where
  "row t i = take (shape t ! 1) (drop (i * (shape t ! 1)) (data t))"

definition first_max_at :: "rat list \<Rightarrow> nat \<Rightarrow> bool" where
  "first_max_at xs k =
     (k < length xs \<and> list_all (\<lambda>x. x \<le> xs ! k) xs \<and> list_all (\<lambda>x. x < xs ! k) (take k xs))"

definition hard_predictions :: "tensor \<Rightarrow> rat list" where
  "hard_predictions y_hat =
     map (\<lambda>i. of_nat (first_argmax (row y_hat i))) [0..<shape y_hat ! 0]"

definition correctness :: "dtype \<Rightarrow> rat list \<Rightarrow> rat list \<Rightarrow> tensor" where
  "correctness d preds labels =
     \<lparr>shape = [length labels], dtype = Float32,
      data = map2 (\<lambda>p l. if cast d p = l then 1 else 0) preds labels\<rparr>"

text \<open>
  The example of the spec: the labels \<open>[0, 1, 1, 0]\<close>, and a matrix of scores of four
  rows whose maxima stand at the indices \<open>[0, 1, 0, 0]\<close>.
\<close>

definition example_labels :: tensor where
  "example_labels = \<lparr>shape = [4], dtype = Int64, data = [0, 1, 1, 0]\<rparr>"

definition example_scores :: tensor where
  "example_scores =
     \<lparr>shape = [4, 2], dtype = Float32,
      data = [9 / 10, 1 / 10,
              2 / 10, 8 / 10,
              6 / 10, 4 / 10,
              7 / 10, 3 / 10]\<rparr>"

section \<open>Properties of device resolution\<close>

subsection \<open>Facts about ranges\<close>

lemma range_py_nonpos: "n \<le> 0 \<Longrightarrow> range_py n = []"
  by (simp add: range_py_def)

lemma length_range_py: "length (range_py n) = nat n"
  by (simp add: range_py_def)

lemma nth_range_py: "k < nat n \<Longrightarrow> range_py n ! k = int k"
  by (simp add: range_py_def)

lemma range_py_nat: "range_py (int n) = map int [0..<n]"
proof (rule nth_equalityI)
  show "length (range_py (int n)) = length (map int [0..<n])"
    by (simp add: length_range_py)
next
  fix k assume "k < length (range_py (int n))"
  then have "k < n" by (simp add: length_range_py)
  then show "range_py (int n) ! k = map int [0..<n] ! k"
    by (simp add: nth_range_py)
qed

text \<open>
  With \<open>n\<close> devices present \<open>try_all_gpus\<close> is the list of the handles of the
  GPUs \<open>0, ..., n - 1\<close> in this order, of length \<open>n\<close>.
\<close>

lemma try_all_gpus_available:
  "try_all_gpus rt = map (\<lambda>k. GPU (int k)) [0..<cuda_device_count rt]"
  by (simp add: try_all_gpus_def num_gpus_def range_py_nat gpu_def comp_def)

subsection \<open>Claims about device resolution\<close>

text \<open>
  C4: for every index \<open>i \<ge> 0\<close>, \<open>try_gpu(i)\<close> is \<open>gpu(i)\<close> when \<open>i\<close> is below
  the number of devices reported at the call, and \<open>cpu()\<close> otherwise. The function is
  total: it has no failing branch, and its value is always one of the two handles.
\<close>

theorem try_gpu_resolves:
  "0 \<le> i \<Longrightarrow>
     try_gpu rt i = (if i < num_gpus rt then gpu i else cpu) \<and>
     (try_gpu rt i = GPU i \<longleftrightarrow> i < num_gpus rt) \<and>
     (try_gpu rt i = CPU \<longleftrightarrow> \<not> i < num_gpus rt)"
  by (auto simp: try_gpu_def gpu_def cpu_def)

theorem try_gpu_resolves_witness:
  "(0::int) \<le> 0 \<and> (0::int) \<le> 10 \<and>
   try_gpu \<lparr>cuda_device_count = 1\<rparr> 0 = GPU 0 \<and>
   try_gpu \<lparr>cuda_device_count = 1\<rparr> 10 = CPU"
  using try_gpu_resolves [of 0 "\<lparr>cuda_device_count = 1\<rparr>"]
    try_gpu_resolves [of 10 "\<lparr>cuda_device_count = 1\<rparr>"]
  by (simp add: num_gpus_def gpu_def cpu_def)

text \<open>
  C1: \<open>try_all_gpus()\<close> is the comprehension over \<open>range(num_gpus())\<close> and nothing
  else. With no device it is the empty list, not the one-element list \<open>[cpu()]\<close> that
  its docstring promises; with \<open>n > 0\<close> devices it is \<open>gpu(0), ..., gpu(n - 1)\<close>.
\<close>

theorem try_all_gpus_no_device:
  "try_all_gpus \<lparr>cuda_device_count = 0\<rparr> = [] \<and>
   try_all_gpus \<lparr>cuda_device_count = 0\<rparr> \<noteq> [cpu] \<and>
   try_all_gpus \<lparr>cuda_device_count = 2\<rparr> = [GPU 0, GPU 1]"
  by (simp add: try_all_gpus_def num_gpus_def range_py_def gpu_def upto.simps)

section \<open>Properties of relocation and batch preparation\<close>

text \<open>
  Relocating a live reference succeeds; the store it returns is the old store with
  zero or one object appended, and the returned reference points to an object on the
  destination with the content of the original.
\<close>

lemma to_live:
  assumes "a < length st"
  shows "\<exists>a' ext. to st a d = (Inr a', st @ ext) \<and> a' < length (st @ ext) \<and>
           device ((st @ ext) ! a') = d \<and> content ((st @ ext) ! a') = content (st ! a)"
proof (cases "device (st ! a) = d")
  case True
  with assms have "to st a d = (Inr a, st @ [])" by (simp add: to_def)
  with assms True show ?thesis by fastforce
next
  case False
  with assms have "to st a d = (Inr (length st), st @ [(st ! a)\<lparr>device := d\<rparr>])"
    by (simp add: to_def)
  then show ?thesis by fastforce
qed

lemma to_each_live:
  "\<forall>a \<in> set batch. a < length st \<Longrightarrow>
   \<exists>batch' ext. to_each st batch d = (Inr batch', st @ ext) \<and>
     length batch' = length batch \<and>
     (\<forall>k < length batch. batch' ! k < length (st @ ext) \<and>
        device ((st @ ext) ! (batch' ! k)) = d \<and>
        content ((st @ ext) ! (batch' ! k)) = content (st ! (batch ! k)))"
proof (induction batch arbitrary: st)
  case Nil
  have "to_each st [] d = (Inr [], st @ [])" by simp
  then show ?case by fastforce
next
  case (Cons a as)
  from Cons.prems have a: "a < length st" by simp
  from to_live [OF a, of d] obtain a' e1 where
    t: "to st a d = (Inr a', st @ e1)" and a'1: "a' < length (st @ e1)"
    and a'2: "device ((st @ e1) ! a') = d"
    and a'3: "content ((st @ e1) ! a') = content (st ! a)" by blast
  from Cons.prems have live: "\<forall>x \<in> set as. x < length (st @ e1)" by auto
  from Cons.IH [OF live] obtain bs e2 where
    r: "to_each (st @ e1) as d = (Inr bs, (st @ e1) @ e2)" and len: "length bs = length as"
    and each: "\<forall>k < length as. bs ! k < length ((st @ e1) @ e2) \<and>
        device (((st @ e1) @ e2) ! (bs ! k)) = d \<and>
        content (((st @ e1) @ e2) ! (bs ! k)) = content ((st @ e1) ! (as ! k))" by blast
  have res: "to_each st (a # as) d = (Inr (a' # bs), st @ (e1 @ e2))"
    using t r by simp
  have old: "\<And>k. k < length as \<Longrightarrow> (st @ e1) ! (as ! k) = st ! (as ! k)"
    using Cons.prems by (simp add: nth_append)
  have "\<forall>k < length (a # as). (a' # bs) ! k < length (st @ (e1 @ e2)) \<and>
        device ((st @ (e1 @ e2)) ! ((a' # bs) ! k)) = d \<and>
        content ((st @ (e1 @ e2)) ! ((a' # bs) ! k)) = content (st ! ((a # as) ! k))"
  proof (intro allI impI)
    fix k assume k: "k < length (a # as)"
    show "(a' # bs) ! k < length (st @ (e1 @ e2)) \<and>
        device ((st @ (e1 @ e2)) ! ((a' # bs) ! k)) = d \<and>
        content ((st @ (e1 @ e2)) ! ((a' # bs) ! k)) = content (st ! ((a # as) ! k))"
    proof (cases k)
      case 0
      have "(st @ (e1 @ e2)) ! a' = (st @ e1) ! a'"
        using a'1 by (metis append.assoc nth_append)
      with 0 a'1 a'2 a'3 show ?thesis by simp
    next
      case (Suc j)
      with k have j: "j < length as" by simp
      with each old [OF j] Suc show ?thesis by simp
    qed
  qed
  with res len show ?case by (metis length_Cons)
qed


text \<open>
  C5: for every trainer and every batch of live references, \<open>prepare_batch\<close> returns
  the batch itself and the store itself when the device list is empty; otherwise it
  returns a batch of the same length whose every element is on the first configured
  device and has the content of the corresponding input element. The store it returns
  is the given store with objects appended: no existing object is changed, and the
  trainer is not written to.
\<close>

theorem prepare_batch_relocates:
  assumes "\<forall>a \<in> set batch. a < length st"
  shows "(self_gpus self = [] \<longrightarrow> prepare_batch self st batch = (Inr batch, st)) \<and>
         (self_gpus self \<noteq> [] \<longrightarrow>
            (\<exists>batch' ext. prepare_batch self st batch = (Inr batch', st @ ext) \<and>
               length batch' = length batch \<and>
               (\<forall>k < length batch. batch' ! k < length (st @ ext) \<and>
                  device ((st @ ext) ! (batch' ! k)) = self_gpus self ! 0 \<and>
                  content ((st @ ext) ! (batch' ! k)) = content (st ! (batch ! k)))))"
proof (intro conjI impI)
  assume "self_gpus self = []"
  then show "prepare_batch self st batch = (Inr batch, st)"
    by (simp add: prepare_batch_def)
next
  assume "self_gpus self \<noteq> []"
  then have "prepare_batch self st batch = to_each st batch (self_gpus self ! 0)"
    by (simp add: prepare_batch_def)
  with to_each_live [OF assms, of "self_gpus self ! 0"]
  show "\<exists>batch' ext. prepare_batch self st batch = (Inr batch', st @ ext) \<and>
               length batch' = length batch \<and>
               (\<forall>k < length batch. batch' ! k < length (st @ ext) \<and>
                  device ((st @ ext) ! (batch' ! k)) = self_gpus self ! 0 \<and>
                  content ((st @ ext) ! (batch' ! k)) = content (st ! (batch ! k)))"
    by simp
qed

theorem prepare_batch_relocates_witness:
  "prepare_batch (Trainer_init \<lparr>cuda_device_count = 1\<rparr> 3 0 0)
     [\<lparr>device = CPU, content = ''x''\<rparr>, \<lparr>device = GPU 0, content = ''y''\<rparr>] [0, 1]
   = (Inr [0, 1], [\<lparr>device = CPU, content = ''x''\<rparr>, \<lparr>device = GPU 0, content = ''y''\<rparr>]) \<and>
   (\<exists>batch' ext.
      prepare_batch (Trainer_init \<lparr>cuda_device_count = 1\<rparr> 3 1 0)
        [\<lparr>device = CPU, content = ''x''\<rparr>, \<lparr>device = GPU 0, content = ''y''\<rparr>] [0, 1]
      = (Inr batch', [\<lparr>device = CPU, content = ''x''\<rparr>, \<lparr>device = GPU 0, content = ''y''\<rparr>] @ ext) \<and>
      length batch' = 2 \<and>
      device (([\<lparr>device = CPU, content = ''x''\<rparr>, \<lparr>device = GPU 0, content = ''y''\<rparr>] @ ext)
                ! (batch' ! 0)) = GPU 0)"
proof -
  let ?st = "[\<lparr>device = CPU, content = ''x''\<rparr>, \<lparr>device = GPU 0, content = ''y''\<rparr>]"
  let ?off = "Trainer_init \<lparr>cuda_device_count = 1\<rparr> 3 0 0"
  let ?on = "Trainer_init \<lparr>cuda_device_count = 1\<rparr> 3 1 0"
  have live: "\<forall>a \<in> set [0, 1]. a < length ?st" by simp
  have off: "self_gpus ?off = []"
    by (simp add: Trainer_init_def num_gpus_def range_py_def)
  have on: "self_gpus ?on = [GPU 0]"
    by (simp add: Trainer_init_def num_gpus_def range_py_def gpu_def upto.simps)
  from prepare_batch_relocates [OF live, of ?off] off
  have first: "prepare_batch ?off ?st [0, 1] = (Inr [0, 1], ?st)" by blast
  from on have "self_gpus ?on \<noteq> []" by simp
  with prepare_batch_relocates [OF live, of ?on] obtain batch' ext where
    eq: "prepare_batch ?on ?st [0, 1] = (Inr batch', ?st @ ext)"
    and len: "length batch' = length [0::nat, 1]"
    and each: "\<forall>k < length [0::nat, 1]. batch' ! k < length (?st @ ext) \<and>
                  device ((?st @ ext) ! (batch' ! k)) = self_gpus ?on ! 0 \<and>
                  content ((?st @ ext) ! (batch' ! k)) = content (?st ! ([0, 1] ! k))"
    by blast
  from each have "device ((?st @ ext) ! (batch' ! 0)) = self_gpus ?on ! 0" by simp
  with on have "device ((?st @ ext) ! (batch' ! 0)) = GPU 0" by simp
  with eq len have "\<exists>batch' ext. prepare_batch ?on ?st [0, 1] = (Inr batch', ?st @ ext) \<and>
      length batch' = 2 \<and> device ((?st @ ext) ! (batch' ! 0)) = GPU 0"
    by auto
  with first show ?thesis by blast
qed

text \<open>
  C8: relocating a live value to the device it is already on returns the same
  reference and the same store (the identical object, nothing allocated); relocating
  it to another device returns a reference that was not live before, to an object with
  the content of the original and the destination as its device, and leaves every
  object of the old store as it was.
\<close>

theorem to_same_or_copy:
  assumes "a < length st"
  shows "(device (st ! a) = d \<longrightarrow> to st a d = (Inr a, st)) \<and>
         (device (st ! a) \<noteq> d \<longrightarrow>
            (\<exists>a' st'. to st a d = (Inr a', st') \<and>
               a' \<noteq> a \<and> \<not> a' < length st \<and> a' < length st' \<and>
               content (st' ! a') = content (st ! a) \<and>
               device (st' ! a') = d \<and>
               (\<forall>r < length st. st' ! r = st ! r)))"
proof (intro conjI impI)
  assume "device (st ! a) = d"
  with assms show "to st a d = (Inr a, st)" by (simp add: to_def)
next
  assume differ: "device (st ! a) \<noteq> d"
  let ?st' = "st @ [(st ! a)\<lparr>device := d\<rparr>]"
  from assms differ have eq: "to st a d = (Inr (length st), ?st')"
    by (simp add: to_def)
  have fresh: "length st \<noteq> a" "\<not> length st < length st" "length st < length ?st'"
    using assms by simp_all
  have new: "content (?st' ! length st) = content (st ! a)" "device (?st' ! length st) = d"
    by simp_all
  have old: "\<forall>r < length st. ?st' ! r = st ! r"
    by (simp add: nth_append)
  from eq fresh new old
  show "\<exists>a' st'. to st a d = (Inr a', st') \<and>
               a' \<noteq> a \<and> \<not> a' < length st \<and> a' < length st' \<and>
               content (st' ! a') = content (st ! a) \<and>
               device (st' ! a') = d \<and>
               (\<forall>r < length st. st' ! r = st ! r)"
    by blast
qed

theorem to_same_or_copy_witness:
  "to [\<lparr>device = GPU 0, content = ''X''\<rparr>, \<lparr>device = CPU, content = ''Y''\<rparr>] 0 (GPU 0)
     = (Inr 0, [\<lparr>device = GPU 0, content = ''X''\<rparr>, \<lparr>device = CPU, content = ''Y''\<rparr>]) \<and>
   (\<exists>a' st'. cuda [\<lparr>device = GPU 0, content = ''X''\<rparr>, \<lparr>device = CPU, content = ''Y''\<rparr>] 1 0
                 = (Inr a', st') \<and>
      a' \<noteq> 1 \<and> content (st' ! a') = ''Y'' \<and> device (st' ! a') = GPU 0)"
proof -
  let ?st = "[\<lparr>device = GPU 0, content = ''X''\<rparr>, \<lparr>device = CPU, content = ''Y''\<rparr>]"
  have x: "0 < length ?st" and y: "1 < length ?st" by simp_all
  have "device (?st ! 0) = GPU 0" by simp
  with to_same_or_copy [OF x, of "GPU 0"]
  have same: "to ?st 0 (GPU 0) = (Inr 0, ?st)" by blast
  have "device (?st ! 1) \<noteq> GPU 0" by simp
  with to_same_or_copy [OF y, of "GPU 0"] obtain a' st' where
    "to ?st 1 (GPU 0) = (Inr a', st')" "a' \<noteq> 1"
    "content (st' ! a') = content (?st ! 1)" "device (st' ! a') = GPU 0"
    by blast
  then have "\<exists>a' st'. cuda ?st 1 0 = (Inr a', st') \<and>
      a' \<noteq> 1 \<and> content (st' ! a') = ''Y'' \<and> device (st' ! a') = GPU 0"
    by (auto simp: cuda_def gpu_def)
  with same show ?thesis by blast
qed

section \<open>Properties of cross-device combination\<close>

text \<open>
  C7: combining two live values that are on differing devices fails with
  \<open>DeviceMismatch\<close> and returns the store as it was: nothing is copied, no operand
  is moved. Combining two values on the same device succeeds with a new value on that
  device, and leaves the existing objects as they were.
\<close>

theorem combine_same_device_only:
  assumes "x < length st" and "y < length st"
  shows "(device (st ! x) \<noteq> device (st ! y) \<longrightarrow>
            combine f st x y = (Inl (DeviceMismatch (device (st ! x)) (device (st ! y))), st)) \<and>
         (device (st ! x) = device (st ! y) \<longrightarrow>
            (\<exists>z st'. combine f st x y = (Inr z, st') \<and> z < length st' \<and>
               device (st' ! z) = device (st ! x) \<and>
               content (st' ! z) = f (content (st ! x)) (content (st ! y)) \<and>
               (\<forall>r < length st. st' ! r = st ! r)))"
proof (intro conjI impI)
  assume "device (st ! x) \<noteq> device (st ! y)"
  with assms
  show "combine f st x y = (Inl (DeviceMismatch (device (st ! x)) (device (st ! y))), st)"
    by (simp add: combine_def)
next
  assume same: "device (st ! x) = device (st ! y)"
  let ?new = "\<lparr>device = device (st ! x), content = f (content (st ! x)) (content (st ! y))\<rparr>"
  from assms same have eq: "combine f st x y = (Inr (length st), st @ [?new])"
    by (simp add: combine_def)
  have "length st < length (st @ [?new])" by simp
  moreover have "device ((st @ [?new]) ! length st) = device (st ! x)" by simp
  moreover have "content ((st @ [?new]) ! length st) = f (content (st ! x)) (content (st ! y))"
    by simp
  moreover have "\<forall>r < length st. (st @ [?new]) ! r = st ! r" by (simp add: nth_append)
  ultimately
  show "\<exists>z st'. combine f st x y = (Inr z, st') \<and> z < length st' \<and>
               device (st' ! z) = device (st ! x) \<and>
               content (st' ! z) = f (content (st ! x)) (content (st ! y)) \<and>
               (\<forall>r < length st. st' ! r = st ! r)"
    using eq by blast
qed

theorem combine_same_device_only_witness:
  "combine (+) [\<lparr>device = GPU 0, content = 1::int\<rparr>, \<lparr>device = CPU, content = 2\<rparr>,
                \<lparr>device = GPU 0, content = 2\<rparr>] 0 1
     = (Inl (DeviceMismatch (GPU 0) CPU),
        [\<lparr>device = GPU 0, content = 1\<rparr>, \<lparr>device = CPU, content = 2\<rparr>,
         \<lparr>device = GPU 0, content = 2\<rparr>]) \<and>
   (\<exists>z st'. combine (+) [\<lparr>device = GPU 0, content = 1::int\<rparr>, \<lparr>device = CPU, content = 2\<rparr>,
                \<lparr>device = GPU 0, content = 2\<rparr>] 0 2 = (Inr z, st') \<and>
       device (st' ! z) = GPU 0 \<and> content (st' ! z) = 3)"
proof -
  let ?st = "[\<lparr>device = GPU 0, content = 1::int\<rparr>, \<lparr>device = CPU, content = 2\<rparr>,
              \<lparr>device = GPU 0, content = 2\<rparr>]"
  have x: "0 < length ?st" and y: "1 < length ?st" and z: "2 < length ?st" by simp_all
  have "device (?st ! 0) \<noteq> device (?st ! 1)" by simp
  with combine_same_device_only [OF x y, of "(+)"]
  have "combine (+) ?st 0 1 = (Inl (DeviceMismatch (device (?st ! 0)) (device (?st ! 1))), ?st)"
    by blast
  then have fails: "combine (+) ?st 0 1 = (Inl (DeviceMismatch (GPU 0) CPU), ?st)" by simp
  have "device (?st ! 0) = device (?st ! 2)" by simp
  with combine_same_device_only [OF x z, of "(+)"] obtain r st' where
    "combine (+) ?st 0 2 = (Inr r, st')" "device (st' ! r) = device (?st ! 0)"
    "content (st' ! r) = content (?st ! 0) + content (?st ! 2)"
    by blast
  then have "\<exists>z st'. combine (+) ?st 0 2 = (Inr z, st') \<and>
       device (st' ! z) = GPU 0 \<and> content (st' ! z) = 3"
    by auto
  with fails show ?thesis by blast
qed

section \<open>Properties of the trainer's device list\<close>

text \<open>
  C10: after \<open>__init__\<close> the device list is \<open>gpu(0), ..., gpu(m - 1)\<close> for
  \<open>m = min(num_gpus, d2l.num_gpus())\<close>: its \<open>k\<close>-th element is the \<open>k\<close>-th GPU, it
  never holds the CPU handle, it is no longer than the number of devices the framework
  reports, and with \<open>num_gpus = 0\<close> (the default) it is empty, so that
  \<open>prepare_batch\<close> returns its batch and the store unchanged.
\<close>

theorem Trainer_init_gpus:
  "self_gpus (Trainer_init rt max_epochs n gcv) = map gpu (range_py (min n (num_gpus rt))) \<and>
   length (self_gpus (Trainer_init rt max_epochs n gcv)) = nat (min n (num_gpus rt)) \<and>
   (\<forall>k < length (self_gpus (Trainer_init rt max_epochs n gcv)).
       self_gpus (Trainer_init rt max_epochs n gcv) ! k = GPU (int k)) \<and>
   cpu \<notin> set (self_gpus (Trainer_init rt max_epochs n gcv)) \<and>
   length (self_gpus (Trainer_init rt max_epochs n gcv)) \<le> cuda_device_count rt \<and>
   self_gpus (Trainer_init rt max_epochs 0 gcv) = [] \<and>
   self_gpus (Trainer_init_default rt max_epochs) = [] \<and>
   prepare_batch (Trainer_init rt max_epochs 0 gcv) st batch = (Inr batch, st) \<and>
   prepare_batch (Trainer_init_default rt max_epochs) st batch = (Inr batch, st)"
proof -
  let ?g = "self_gpus (Trainer_init rt max_epochs n gcv)"
  have def: "?g = map gpu (range_py (min n (num_gpus rt)))"
    by (simp add: Trainer_init_def)
  have len: "length ?g = nat (min n (num_gpus rt))"
    by (simp add: def length_range_py)
  have nth: "\<forall>k < length ?g. ?g ! k = GPU (int k)"
    using len by (simp add: def nth_range_py length_range_py gpu_def)
  have nocpu: "cpu \<notin> set ?g"
    by (auto simp: def cpu_def gpu_def)
  have bound: "length ?g \<le> cuda_device_count rt"
    using len by (simp add: num_gpus_def)
  have none: "self_gpus (Trainer_init rt max_epochs 0 gcv) = []" for gcv
    by (simp add: Trainer_init_def num_gpus_def range_py_nonpos)
  have ident: "prepare_batch (Trainer_init rt max_epochs 0 gcv) st batch = (Inr batch, st)" for gcv
    using none [of gcv] by (simp add: prepare_batch_def)
  show ?thesis
    using def len nth nocpu bound none [of gcv] none [of 0] ident [of gcv] ident [of 0]
    unfolding Trainer_init_default_def by blast
qed

theorem Trainer_init_gpus_witness:
  "self_gpus (Trainer_init \<lparr>cuda_device_count = 1\<rparr> 3 2 0) = [GPU 0] \<and>
   self_gpus (Trainer_init \<lparr>cuda_device_count = 2\<rparr> 3 0 0) = [] \<and>
   prepare_batch (Trainer_init_default \<lparr>cuda_device_count = 2\<rparr> 3)
     [\<lparr>device = CPU, content = ''x''\<rparr>] [0] = (Inr [0], [\<lparr>device = CPU, content = ''x''\<rparr>])"
proof -
  let ?one = "\<lparr>cuda_device_count = 1\<rparr>" and ?two = "\<lparr>cuda_device_count = 2\<rparr>"
  let ?st = "[\<lparr>device = CPU, content = ''x''\<rparr>]"
  from Trainer_init_gpus [of ?one 3 2 0 ?st "[0]"]
  have "self_gpus (Trainer_init ?one 3 2 0) = map gpu (range_py (min 2 (num_gpus ?one)))"
    by blast
  then have a: "self_gpus (Trainer_init ?one 3 2 0) = [GPU 0]"
    by (simp add: num_gpus_def range_py_def gpu_def upto.simps)
  from Trainer_init_gpus [of ?two 3 0 0 ?st "[0]"]
  have b: "self_gpus (Trainer_init ?two 3 0 0) = []"
    and c: "prepare_batch (Trainer_init_default ?two 3) ?st [0] = (Inr [0], ?st)"
    by blast+
  from a b c show ?thesis by blast
qed

section \<open>Properties of the tensor primitives\<close>

subsection \<open>The first maximum\<close>

text \<open>
  The scan returns the lowest index of a greatest element: it is an index of the
  sequence, no element is greater than the one there, and every element before it is
  strictly smaller. Such an index is unique.
\<close>

lemma first_max_at_iff:
  "first_max_at xs k \<longleftrightarrow>
     k < length xs \<and> (\<forall>j < length xs. xs ! j \<le> xs ! k) \<and> (\<forall>j < k. xs ! j < xs ! k)"
  by (auto simp: first_max_at_def list_all_length)

lemma first_max_at_unique:
  assumes "first_max_at xs k" and "first_max_at xs k'"
  shows "k = k'"
proof (rule ccontr)
  assume "k \<noteq> k'"
  then consider "k < k'" | "k' < k" by linarith
  then show False
  proof cases
    case 1
    with assms have "xs ! k < xs ! k'" "xs ! k' \<le> xs ! k"
      by (simp_all add: first_max_at_iff)
    then show False by simp
  next
    case 2
    with assms have "xs ! k' < xs ! k" "xs ! k \<le> xs ! k'"
      by (simp_all add: first_max_at_iff)
    then show False by simp
  qed
qed

lemma argmax_scan_first_max:
  assumes "length pre = i" and "pos < i" and "pre ! pos = best"
    and "\<forall>j < i. pre ! j \<le> best" and "\<forall>j < pos. pre ! j < best"
  shows "first_max_at (pre @ xs) (argmax_scan xs i best pos)"
  using assms
proof (induction xs arbitrary: pre i best pos)
  case Nil
  then show ?case by (simp add: first_max_at_iff)
next
  case (Cons x xs)
  have len: "length (pre @ [x]) = Suc i" using Cons.prems by simp
  show ?case
  proof (cases "best < x")
    case True
    have "first_max_at ((pre @ [x]) @ xs) (argmax_scan xs (Suc i) x i)"
    proof (rule Cons.IH [OF len])
      show "i < Suc i" by simp
      show "(pre @ [x]) ! i = x" using Cons.prems by (simp add: nth_append)
      show "\<forall>j < Suc i. (pre @ [x]) ! j \<le> x"
        using Cons.prems True by (auto simp: nth_append less_Suc_eq intro: order_trans less_imp_le)
      show "\<forall>j < i. (pre @ [x]) ! j < x"
        using Cons.prems True by (auto simp: nth_append intro: le_less_trans)
    qed
    with True show ?thesis by simp
  next
    case False
    have "first_max_at ((pre @ [x]) @ xs) (argmax_scan xs (Suc i) best pos)"
    proof (rule Cons.IH [OF len])
      show "pos < Suc i" using Cons.prems by simp
      show "(pre @ [x]) ! pos = best" using Cons.prems by (simp add: nth_append)
      show "\<forall>j < Suc i. (pre @ [x]) ! j \<le> best"
        using Cons.prems False by (auto simp: nth_append less_Suc_eq)
      show "\<forall>j < pos. (pre @ [x]) ! j < best"
        using Cons.prems by (auto simp: nth_append)
    qed
    with False show ?thesis by simp
  qed
qed

lemma first_argmax_first_max: "xs \<noteq> [] \<Longrightarrow> first_max_at xs (first_argmax xs)"
proof (cases xs)
  case Nil
  assume "xs \<noteq> []"
  with Nil show ?thesis by simp
next
  case (Cons x ys)
  have "first_max_at ([x] @ ys) (argmax_scan ys 1 x 0)"
    by (rule argmax_scan_first_max) simp_all
  with Cons show ?thesis by simp
qed

lemma first_argmax_eq: "first_max_at xs k \<Longrightarrow> first_argmax xs = k"
proof -
  assume k: "first_max_at xs k"
  then have "xs \<noteq> []" by (auto simp: first_max_at_def)
  then have "first_max_at xs (first_argmax xs)" by (rule first_argmax_first_max)
  then show ?thesis using k by (rule first_max_at_unique)
qed

subsection \<open>Argmax over the rows of a matrix\<close>

text \<open>
  On a consistent tensor of two axes the lanes of axis 1 are the rows, and \<open>argmax\<close>
  along axis 1 is the vector of the first maxima of the rows.
\<close>

lemma take_drop_nth_map:
  assumes "i * c + c \<le> length xs"
  shows "take c (drop (i * c) xs) = map (\<lambda>j. xs ! (i * c + j)) [0..<c]"
proof (rule nth_equalityI)
  show "length (take c (drop (i * c) xs)) = length (map (\<lambda>j. xs ! (i * c + j)) [0..<c])"
    using assms by simp
next
  fix k assume "k < length (take c (drop (i * c) xs))"
  then have k: "k < c" by simp
  with assms show "take c (drop (i * c) xs) ! k = map (\<lambda>j. xs ! (i * c + j)) [0..<c] ! k"
    by simp
qed

lemma lane_row:
  assumes "shape t = [n, c]" and "consistent t" and "i < n"
  shows "lane t 1 i 0 = row t i"
proof -
  have "i * c + c \<le> n * c"
  proof -
    from assms(3) have "Suc i \<le> n" by simp
    then have "Suc i * c \<le> n * c" by (rule mult_le_mono1)
    then show ?thesis by (simp add: add.commute)
  qed
  with assms have "i * c + c \<le> length (data t)"
    by (simp add: consistent_def numel_def)
  then have "row t i = map (\<lambda>j. data t ! (i * c + j)) [0..<c]"
    using assms(1) by (simp add: row_def take_drop_nth_map)
  moreover have "lane t 1 i 0 = map (\<lambda>j. data t ! (i * c + j)) [0..<c]"
    using assms(1) by (simp add: lane_def)
  ultimately show ?thesis by simp
qed

lemma argmax_matrix:
  assumes "shape t = [n, c]" and "0 < c" and "consistent t"
  shows "argmax t 1 =
           Inr \<lparr>shape = [n], dtype = Int64,
                data = map (\<lambda>i. of_nat (first_argmax (row t i))) [0..<n]\<rparr>"
proof -
  have "map (\<lambda>outer. of_nat (first_argmax (lane t 1 outer 0)) :: rat) [0..<n]
        = map (\<lambda>i. of_nat (first_argmax (row t i))) [0..<n]"
  proof (rule map_cong [OF refl])
    fix i assume "i \<in> set [0..<n]"
    then have "i < n" by simp
    then have "lane t 1 i 0 = row t i" by (rule lane_row [OF assms(1,3)])
    then show "(of_nat (first_argmax (lane t 1 i 0)) :: rat) = of_nat (first_argmax (row t i))"
      by (simp only:)
  qed
  moreover have "argmax t 1 =
           Inr \<lparr>shape = [n], dtype = Int64,
                data = map (\<lambda>outer. of_nat (first_argmax (lane t 1 outer 0))) [0..<n]\<rparr>"
    using assms(1,2) by (simp add: argmax_def concat_map_singleton)
  ultimately show ?thesis by (simp only:)
qed

subsection \<open>Comparison of vectors\<close>

text \<open>
  Two consistent vectors of the same length are compared position by position; a vector
  of one element is compared with every element of the other.
\<close>

lemma multi_indices_vector: "multi_indices [n] = map (\<lambda>i. [i]) [0..<n]"
  by (simp add: concat_map_singleton)

lemma offset_vector: "offset [n] [i] = (if n = 1 then 0 else i)"
  by (simp add: offset_def)

lemma broadcast_same: "broadcast_shapes [n] [n] = Some [n]"
  by (simp add: broadcast_shapes_def)

lemma broadcast_one: "broadcast_shapes [Suc 0] [n] = Some [n]"
  by (simp add: broadcast_shapes_def)

lemma tensor_eq_vectors:
  assumes "shape a = [n]" and "shape b = [n]" and "consistent a" and "consistent b"
  shows "tensor_eq a b =
           Inr \<lparr>shape = [n], dtype = Bool,
                data = map2 (\<lambda>x y. if x = y then 1 else 0) (data a) (data b)\<rparr>"
proof -
  have la: "length (data a) = n" and lb: "length (data b) = n"
    using assms by (simp_all add: consistent_def numel_def)
  have "map (\<lambda>idx. if data a ! offset [n] idx = data b ! offset [n] idx then 1 else 0 :: rat)
          (multi_indices [n])
        = map2 (\<lambda>x y. if x = y then 1 else 0) (data a) (data b)"
  proof (rule nth_equalityI)
    show "length (map (\<lambda>idx. if data a ! offset [n] idx = data b ! offset [n] idx then 1 else 0 :: rat)
             (multi_indices [n]))
          = length (map2 (\<lambda>x y. if x = y then 1 else 0 :: rat) (data a) (data b))"
      using la lb by (simp add: multi_indices_vector)
  next
    fix k
    assume "k < length (map (\<lambda>idx. if data a ! offset [n] idx = data b ! offset [n] idx
                                      then 1 else 0 :: rat) (multi_indices [n]))"
    then have k: "k < n" by (simp add: multi_indices_vector)
    then have "offset [n] [k] = k" by (auto simp: offset_vector)
    with k la lb
    show "map (\<lambda>idx. if data a ! offset [n] idx = data b ! offset [n] idx then 1 else 0 :: rat)
            (multi_indices [n]) ! k
          = map2 (\<lambda>x y. if x = y then 1 else 0) (data a) (data b) ! k"
      by (simp add: multi_indices_vector)
  qed
  with assms(1,2) show ?thesis
    by (simp add: tensor_eq_def broadcast_same)
qed

lemma tensor_eq_single:
  assumes "shape a = [1]" and "shape b = [n]" and "consistent b"
  shows "tensor_eq a b =
           Inr \<lparr>shape = [n], dtype = Bool,
                data = map (\<lambda>y. if data a ! 0 = y then 1 else 0) (data b)\<rparr>"
proof -
  have lb: "length (data b) = n"
    using assms by (simp add: consistent_def numel_def)
  have "map (\<lambda>i. if data a ! 0 = data b ! i then 1 else 0 :: rat) [0..<n]
        = map (\<lambda>y. if data a ! 0 = y then 1 else 0) (map (\<lambda>i. data b ! i) [0..<length (data b)])"
    using lb by (simp add: comp_def)
  also have "\<dots> = map (\<lambda>y. if data a ! 0 = y then 1 else 0) (data b)"
    by (simp only: map_nth)
  finally have pointwise:
    "map (\<lambda>i. if data a ! 0 = data b ! i then 1 else 0 :: rat) [0..<n]
     = map (\<lambda>y. if data a ! 0 = y then 1 else 0) (data b)" .
  have "tensor_eq a b =
           Inr \<lparr>shape = [n], dtype = Bool,
                data = map (\<lambda>i. if data a ! 0 = data b ! i then 1 else 0) [0..<n]\<rparr>"
    using assms(1,2)
    by (cases "n = 1")
      (simp_all add: tensor_eq_def broadcast_one multi_indices_vector offset_vector comp_def)
  with pointwise show ?thesis by simp
qed

subsection \<open>Reshaping and casting\<close>

text \<open>
  Reshaping a matrix to \<open>(-1, its last axis)\<close> and a vector to \<open>-1\<close> changes
  nothing; reshaping a non-empty vector to \<open>(-1, its length)\<close> makes it one row.
\<close>

lemma reshape_rows_matrix:
  assumes "shape t = [n, c]" and "0 < c"
  shows "reshape t [- 1, int c] = Inr t"
proof -
  have "int (n * c) mod int c = 0" by simp
  moreover have "nat (int (n * c) div int c) = n" using assms(2) by simp
  ultimately have "reshape t [- 1, int c] = Inr (t\<lparr>shape := [n, c]\<rparr>)"
    using assms by (simp add: reshape_def numel_def Let_def)
  with assms(1) show ?thesis by (metis tensor.surjective tensor.update_convs(1))
qed

lemma reshape_rows_vector:
  assumes "shape t = [n]" and "0 < n"
  shows "reshape t [- 1, int n] = Inr (t\<lparr>shape := [1, n]\<rparr>)"
  using assms by (simp add: reshape_def numel_def Let_def)

lemma reshape_flat_vector:
  assumes "shape t = [n]"
  shows "reshape t [- 1] = Inr t"
proof -
  have "reshape t [- 1] = Inr (t\<lparr>shape := [n]\<rparr>)"
    using assms by (simp add: reshape_def numel_def Let_def)
  with assms show ?thesis by (metis tensor.surjective tensor.update_convs(1))
qed

lemma astype_fields [simp]:
  "shape (astype t d) = shape t" "dtype (astype t d) = d"
  "data (astype t d) = map (cast d) (data t)"
  by (simp_all add: astype_def)

lemma consistent_astype [simp]: "consistent (astype t d) = consistent t"
  by (simp add: consistent_def numel_def)

section \<open>Properties of the accuracy helpers\<close>

subsection \<open>On a matrix of scores\<close>

text \<open>
  On a matrix with at least one column both helpers take the argmax of the rows,
  compare it with the labels and average; the reshapes of the notebook's helper change
  nothing there, and the guard of the book's helper holds when there are two columns
  or more.
\<close>

lemma Classification_accuracy_matrix:
  assumes "shape y_hat = [n, c]" and "1 < c"
  shows "Classification_accuracy y_hat y =
           (case argmax y_hat 1 of
              Inl e \<Rightarrow> Inl e
            | Inr am \<Rightarrow>
               (case tensor_eq (astype am (dtype y)) y of
                  Inl e \<Rightarrow> Inl e
                | Inr cmp \<Rightarrow> Inr (Averaged (reduce_mean (astype cmp Float32)))))"
  using assms by (simp add: Classification_accuracy_def)

lemma Classifier_accuracy_matrix:
  assumes "shape Y_hat = [n, c]" and "0 < c" and "shape Y = [m]"
  shows "Classifier_accuracy Y_hat Y averaged =
           (case argmax Y_hat 1 of
              Inl e \<Rightarrow> Inl e
            | Inr am \<Rightarrow>
               (case tensor_eq (astype am (dtype Y)) Y of
                  Inl e \<Rightarrow> Inl e
                | Inr cmp \<Rightarrow>
                    Inr (if averaged then Averaged (reduce_mean (astype cmp Float32))
                         else Elementwise (astype cmp Float32))))"
proof -
  have "reshape Y_hat [- 1, int (last (shape Y_hat))] = Inr Y_hat"
    using reshape_rows_matrix [OF assms(1,2)] assms(1) by simp
  moreover have "reshape Y [- 1] = Inr Y"
    by (rule reshape_flat_vector [OF assms(3)])
  moreover have "shape Y_hat \<noteq> []" using assms(1) by simp
  ultimately show ?thesis
    by (simp add: Classifier_accuracy_def Let_def split: sum.splits)
qed

lemma correctness_fields [simp]:
  "shape (correctness d preds labels) = [length labels]"
  "dtype (correctness d preds labels) = Float32"
  "data (correctness d preds labels) = map2 (\<lambda>p l. if cast d p = l then 1 else 0) preds labels"
  by (simp_all add: correctness_def)

text \<open>
  Casting predictions to the labels' type, comparing them with the labels and casting
  the outcome to the float type gives the correctness sequence.
\<close>

lemma compare_vectors:
  assumes "shape preds = [n]" and "consistent preds" and "shape y = [n]" and "consistent y"
  shows "\<exists>cmp. tensor_eq (astype preds (dtype y)) y = Inr cmp \<and>
           astype cmp Float32 = correctness (dtype y) (data preds) (data y)"
proof -
  let ?p = "astype preds (dtype y)"
  have p: "shape ?p = [n]" "consistent ?p" using assms(1,2) by simp_all
  have n: "length (data y) = n" using assms(3,4) by (simp add: consistent_def numel_def)
  from tensor_eq_vectors [OF p(1) assms(3) p(2) assms(4)]
  have eq: "tensor_eq ?p y =
              Inr \<lparr>shape = [n], dtype = Bool,
                   data = map2 (\<lambda>x l. if x = l then 1 else 0) (data ?p) (data y)\<rparr>" .
  have "map (cast Float32) (map2 (\<lambda>x l. if x = l then 1 else 0 :: rat) (data ?p) (data y))
        = map2 (\<lambda>p l. if cast (dtype y) p = l then 1 else 0) (data preds) (data y)"
    by (simp add: zip_map1 comp_def case_prod_unfold)
  then have "astype \<lparr>shape = [n], dtype = Bool,
                   data = map2 (\<lambda>x l. if x = l then 1 else 0) (data ?p) (data y)\<rparr> Float32
             = correctness (dtype y) (data preds) (data y)"
    using n by (simp add: astype_def correctness_def)
  with eq show ?thesis by blast
qed

lemma argmax_hard_predictions:
  assumes "shape y_hat = [n, c]" and "0 < c" and "consistent y_hat"
  shows "argmax y_hat 1 = Inr \<lparr>shape = [n], dtype = Int64, data = hard_predictions y_hat\<rparr>"
  using argmax_matrix [OF assms] assms(1) by (simp add: hard_predictions_def)

lemma length_hard_predictions: "length (hard_predictions y_hat) = shape y_hat ! 0"
  by (simp add: hard_predictions_def)

lemma Classifier_accuracy_rows:
  assumes "shape Y_hat = [n, c]" and "0 < c" and "consistent Y_hat"
    and "shape Y = [n]" and "consistent Y"
  shows "Classifier_accuracy Y_hat Y averaged =
           Inr (if averaged
                then Averaged (reduce_mean (correctness (dtype Y) (hard_predictions Y_hat) (data Y)))
                else Elementwise (correctness (dtype Y) (hard_predictions Y_hat) (data Y)))"
proof -
  let ?am = "\<lparr>shape = [n], dtype = Int64, data = hard_predictions Y_hat\<rparr>"
  have am: "argmax Y_hat 1 = Inr ?am" by (rule argmax_hard_predictions [OF assms(1,2,3)])
  have "shape ?am = [n]" "consistent ?am"
    using assms(1) by (simp_all add: consistent_def numel_def length_hard_predictions)
  from compare_vectors [OF this assms(4,5)] obtain cmp where
    "tensor_eq (astype ?am (dtype Y)) Y = Inr cmp"
    "astype cmp Float32 = correctness (dtype Y) (hard_predictions Y_hat) (data Y)" by auto
  with am show ?thesis
    by (simp add: Classifier_accuracy_matrix [OF assms(1,2,4)])
qed

lemma Classification_accuracy_rows:
  assumes "shape y_hat = [n, c]" and "1 < c" and "consistent y_hat"
    and "shape y = [n]" and "consistent y"
  shows "Classification_accuracy y_hat y =
           Inr (Averaged (reduce_mean (correctness (dtype y) (hard_predictions y_hat) (data y))))"
proof -
  from assms(2) have c: "0 < c" by simp
  let ?am = "\<lparr>shape = [n], dtype = Int64, data = hard_predictions y_hat\<rparr>"
  have am: "argmax y_hat 1 = Inr ?am" by (rule argmax_hard_predictions [OF assms(1) c assms(3)])
  have "shape ?am = [n]" "consistent ?am"
    using assms(1) by (simp_all add: consistent_def numel_def length_hard_predictions)
  from compare_vectors [OF this assms(4,5)] obtain cmp where
    "tensor_eq (astype ?am (dtype y)) y = Inr cmp"
    "astype cmp Float32 = correctness (dtype y) (hard_predictions y_hat) (data y)" by auto
  with am show ?thesis
    by (simp add: Classification_accuracy_matrix [OF assms(1,2)])
qed

lemma cast_zero_one [simp]: "cast d 0 = 0" "cast d 1 = 1"
  by (cases d; simp)+

lemma upt_4: "[0..<4] = [0, 1, 2, 3]"
  by (simp add: upt_rec)

subsection \<open>The example of the spec\<close>

text \<open>
  C2 (as amended): for the labels \<open>[0, 1, 1, 0]\<close> and every consistent matrix of
  scores with four rows and two or more columns whose rows have their first maxima at
  the indices \<open>[0, 1, 0, 0]\<close>, three of the four predictions are the labels: the
  notebook's helper returns the accuracy \<open>3/4\<close> when it averages and the correctness
  sequence \<open>[1, 1, 0, 1]\<close> (in the order of the rows) when it does not, and the book's
  helper returns \<open>3/4\<close>. This holds whatever the element type of the labels.
\<close>

theorem accuracy_example:
  assumes "consistent Y_hat" and "shape Y_hat = [4, c]" and "1 < c"
    and "first_max_at (row Y_hat 0) 0" and "first_max_at (row Y_hat 1) 1"
    and "first_max_at (row Y_hat 2) 0" and "first_max_at (row Y_hat 3) 0"
  shows "Classifier_accuracy Y_hat (example_labels\<lparr>dtype := d\<rparr>) True
           = Inr (Averaged (Value (3 / 4))) \<and>
         Classifier_accuracy Y_hat (example_labels\<lparr>dtype := d\<rparr>) False
           = Inr (Elementwise \<lparr>shape = [4], dtype = Float32, data = [1, 1, 0, 1]\<rparr>) \<and>
         Classification_accuracy Y_hat (example_labels\<lparr>dtype := d\<rparr>)
           = Inr (Averaged (Value (3 / 4)))"
proof -
  let ?Y = "example_labels\<lparr>dtype := d\<rparr>"
  from assms(3) have c: "0 < c" by simp
  have Y: "shape ?Y = [4]" "consistent ?Y"
    by (simp_all add: example_labels_def consistent_def numel_def)
  have maxima: "first_argmax (row Y_hat 0) = 0" "first_argmax (row Y_hat (Suc 0)) = Suc 0"
    "first_argmax (row Y_hat 2) = 0" "first_argmax (row Y_hat 3) = 0"
    using assms(4-7) [THEN first_argmax_eq] by simp_all
  have preds: "hard_predictions Y_hat = [0, 1, 0, 0]"
    using assms(2) by (simp add: hard_predictions_def upt_4 maxima)
  have hits: "correctness d (hard_predictions Y_hat) (data example_labels)
              = \<lparr>shape = [4], dtype = Float32, data = [1, 1, 0, 1]\<rparr>"
    by (simp add: preds correctness_def example_labels_def)
  have mean: "reduce_mean \<lparr>shape = [4], dtype = Float32, data = [1, 1, 0, 1]\<rparr> = Value (3 / 4)"
    by (simp add: reduce_mean_def)
  show ?thesis
    using Classifier_accuracy_rows [OF assms(2) c assms(1) Y, of True]
      Classifier_accuracy_rows [OF assms(2) c assms(1) Y, of False]
      Classification_accuracy_rows [OF assms(2,3,1) Y]
    by (simp add: hits mean)
qed

theorem accuracy_example_witness:
  "Classifier_accuracy example_scores example_labels True = Inr (Averaged (Value (3 / 4))) \<and>
   Classifier_accuracy example_scores example_labels False
     = Inr (Elementwise \<lparr>shape = [4], dtype = Float32, data = [1, 1, 0, 1]\<rparr>) \<and>
   Classification_accuracy example_scores example_labels = Inr (Averaged (Value (3 / 4)))"
proof -
  have "consistent example_scores" by code_simp
  moreover have "shape example_scores = [4, 2]" by code_simp
  moreover have "(1::nat) < 2" by simp
  moreover have "first_max_at (row example_scores 0) 0" by code_simp
  moreover have "first_max_at (row example_scores 1) 1" by code_simp
  moreover have "first_max_at (row example_scores 2) 0" by code_simp
  moreover have "first_max_at (row example_scores 3) 0" by code_simp
  ultimately have
    "Classifier_accuracy example_scores (example_labels\<lparr>dtype := Int64\<rparr>) True
       = Inr (Averaged (Value (3 / 4))) \<and>
     Classifier_accuracy example_scores (example_labels\<lparr>dtype := Int64\<rparr>) False
       = Inr (Elementwise \<lparr>shape = [4], dtype = Float32, data = [1, 1, 0, 1]\<rparr>) \<and>
     Classification_accuracy example_scores (example_labels\<lparr>dtype := Int64\<rparr>)
       = Inr (Averaged (Value (3 / 4)))"
    by (rule accuracy_example)
  moreover have "example_labels\<lparr>dtype := Int64\<rparr> = example_labels"
    by (simp add: example_labels_def)
  ultimately show ?thesis by simp
qed

text \<open>
  C2 as the spec states it, with the accuracy \<open>1/2\<close> and the correctness sequence
  \<open>[1, 0, 0, 1]\<close>, fails at the example tensors: their rows have their maxima at
  \<open>[0, 1, 0, 0]\<close>, and neither helper returns \<open>1/2\<close> nor \<open>[1, 0, 0, 1]\<close>.
\<close>

theorem accuracy_example_counterexample:
  "consistent example_scores \<and> shape example_scores = [4, 2] \<and>
   data example_labels = [0, 1, 1, 0] \<and>
   first_max_at (row example_scores 0) 0 \<and> first_max_at (row example_scores 1) 1 \<and>
   first_max_at (row example_scores 2) 0 \<and> first_max_at (row example_scores 3) 0 \<and>
   Classifier_accuracy example_scores example_labels True \<noteq> Inr (Averaged (Value (1 / 2))) \<and>
   Classifier_accuracy example_scores example_labels False
     \<noteq> Inr (Elementwise \<lparr>shape = [4], dtype = Float32, data = [1, 0, 0, 1]\<rparr>) \<and>
   Classification_accuracy example_scores example_labels \<noteq> Inr (Averaged (Value (1 / 2)))"
  by code_simp

subsection \<open>Agreement of the two helpers\<close>

text \<open>
  C6: for every tensor of scores of two axes with two or more columns and every
  vector of labels with as many elements as the scores have rows, the notebook's
  helper, averaging, and the book's helper return the same thing, and it is an averaged
  accuracy, not an error. On consistent tensors it is the mean of the correctness
  sequence of the hard predictions.
\<close>

theorem accuracy_helpers_agree:
  assumes "shape Y_hat = [n, c]" and "1 < c" and "shape Y = [n]"
  shows "Classifier_accuracy Y_hat Y True = Classification_accuracy Y_hat Y \<and>
         (\<exists>v. Classification_accuracy Y_hat Y = Inr (Averaged v)) \<and>
         (consistent Y_hat \<and> consistent Y \<longrightarrow>
            Classification_accuracy Y_hat Y =
              Inr (Averaged (reduce_mean
                     (correctness (dtype Y) (hard_predictions Y_hat) (data Y)))))"
proof -
  from assms(2) have c: "0 < c" by simp
  have same: "Classifier_accuracy Y_hat Y True = Classification_accuracy Y_hat Y"
    by (simp add: Classifier_accuracy_matrix [OF assms(1) c assms(3)]
        Classification_accuracy_matrix [OF assms(1,2)] split: sum.splits)
  obtain am where am: "argmax Y_hat 1 = Inr am" and sh: "shape am = [n]"
    using assms(1) c by (simp add: argmax_def)
  have "broadcast_shapes (shape (astype am (dtype Y))) (shape Y) = Some [n]"
    using sh assms(3) by (simp add: broadcast_same)
  then obtain cmp where "tensor_eq (astype am (dtype Y)) Y = Inr cmp"
    by (simp add: tensor_eq_def)
  with am have succeeds: "\<exists>v. Classification_accuracy Y_hat Y = Inr (Averaged v)"
    by (simp add: Classification_accuracy_matrix [OF assms(1,2)])
  have "Classification_accuracy Y_hat Y =
          Inr (Averaged (reduce_mean (correctness (dtype Y) (hard_predictions Y_hat) (data Y))))"
    if "consistent Y_hat \<and> consistent Y"
    using that assms by (simp add: Classification_accuracy_rows)
  with same succeeds show ?thesis by blast
qed

theorem accuracy_helpers_agree_witness:
  "Classifier_accuracy example_scores example_labels True
     = Classification_accuracy example_scores example_labels \<and>
   Classification_accuracy example_scores example_labels = Inr (Averaged (Value (3 / 4)))"
proof -
  have shapes: "shape example_scores = [4, 2]" "(1::nat) < 2" "shape example_labels = [4]"
    by (simp_all add: example_scores_def example_labels_def)
  have sound: "consistent example_scores \<and> consistent example_labels"
    by (simp add: consistent_def numel_def example_scores_def example_labels_def)
  from accuracy_helpers_agree [OF shapes] sound
  have "Classifier_accuracy example_scores example_labels True
          = Classification_accuracy example_scores example_labels"
    and "Classification_accuracy example_scores example_labels =
          Inr (Averaged (reduce_mean (correctness (dtype example_labels)
                 (hard_predictions example_scores) (data example_labels))))"
    by blast+
  moreover have "reduce_mean (correctness (dtype example_labels)
                   (hard_predictions example_scores) (data example_labels)) = Value (3 / 4)"
    by code_simp
  ultimately show ?thesis by simp
qed

subsection \<open>On a flat sequence of hard labels\<close>

text \<open>
  The book's helper leaves a vector as it is and compares it with the labels, as the
  prose of both notebooks says ("if \<open>y_hat\<close> is a matrix ... we use \<open>argmax\<close>"); a
  matrix of one column it also leaves as it is. The code of the notebook's helper has
  no such test: it reshapes a vector of \<open>n > 0\<close> elements to one row of \<open>n\<close>
  scores, takes the argmax of that row, and compares this single index with every
  label.
\<close>

lemma Classification_accuracy_vector:
  assumes "shape y_hat = [n]" and "consistent y_hat" and "shape y = [n]" and "consistent y"
  shows "Classification_accuracy y_hat y =
           Inr (Averaged (reduce_mean (correctness (dtype y) (data y_hat) (data y))))"
proof -
  from compare_vectors [OF assms] obtain cmp where
    "tensor_eq (astype y_hat (dtype y)) y = Inr cmp"
    "astype cmp Float32 = correctness (dtype y) (data y_hat) (data y)" by blast
  with assms(1) show ?thesis
    by (simp add: Classification_accuracy_def)
qed

lemma Classification_accuracy_column:
  assumes "shape y_hat = [n, 1]"
  shows "Classification_accuracy y_hat y =
           (case tensor_eq (astype y_hat (dtype y)) y of
              Inl e \<Rightarrow> Inl e
            | Inr cmp \<Rightarrow> Inr (Averaged (reduce_mean (astype cmp Float32))))"
  using assms by (simp add: Classification_accuracy_def)

lemma correctness_replicate:
  assumes "length labels = n"
  shows "correctness d (replicate n p) labels =
           \<lparr>shape = [n], dtype = Float32,
            data = map (\<lambda>l. if cast d p = l then 1 else 0) labels\<rparr>"
  using assms by (simp add: correctness_def zip_replicate1 comp_def)

lemma Classifier_accuracy_vector:
  assumes "shape Y_hat = [n]" and "0 < n" and "consistent Y_hat"
    and "shape Y = [n]" and "consistent Y"
  shows "Classifier_accuracy Y_hat Y averaged =
           Inr (if averaged
                then Averaged (reduce_mean (correctness (dtype Y)
                       (replicate n (of_nat (first_argmax (data Y_hat)))) (data Y)))
                else Elementwise (correctness (dtype Y)
                       (replicate n (of_nat (first_argmax (data Y_hat)))) (data Y)))"
proof -
  let ?one_row = "Y_hat\<lparr>shape := [1, n]\<rparr>"
  let ?k = "of_nat (first_argmax (data Y_hat)) :: rat"
  have len: "length (data Y_hat) = n" "length (data Y) = n"
    using assms by (simp_all add: consistent_def numel_def)
  have reshaped: "reshape Y_hat [- 1, int (last (shape Y_hat))] = Inr ?one_row"
    using reshape_rows_vector [OF assms(1,2)] assms(1) by simp
  have one_row: "shape ?one_row = [1, n]" "consistent ?one_row"
    using len by (simp_all add: consistent_def numel_def)
  have "row ?one_row 0 = data Y_hat"
    using len by (simp add: row_def)
  then have am: "argmax ?one_row 1 = Inr \<lparr>shape = [1], dtype = Int64, data = [?k]\<rparr>"
    using argmax_matrix [OF one_row(1) assms(2) one_row(2)] by simp
  let ?preds = "astype \<lparr>shape = [1], dtype = Int64, data = [?k]\<rparr> (dtype Y)"
  have flat: "reshape Y [- 1] = Inr Y" by (rule reshape_flat_vector [OF assms(4)])
  have "shape ?preds = [1]" by simp
  from tensor_eq_single [OF this assms(4,5)]
  have eq: "tensor_eq ?preds Y =
              Inr \<lparr>shape = [n], dtype = Bool,
                   data = map (\<lambda>l. if cast (dtype Y) ?k = l then 1 else 0) (data Y)\<rparr>"
    by simp
  have "astype \<lparr>shape = [n], dtype = Bool,
               data = map (\<lambda>l. if cast (dtype Y) ?k = l then 1 else 0) (data Y)\<rparr> Float32
        = correctness (dtype Y) (replicate n ?k) (data Y)"
    by (simp add: astype_def correctness_replicate [OF len(2)] comp_def)
  with reshaped am flat eq assms(1) show ?thesis
    by (simp add: Classifier_accuracy_def Let_def)
qed

text \<open>
  C3: a flat sequence of hard labels is to be compared with the labels directly,
  without argmax. On the flat sequence \<open>[1, 1]\<close> with the labels \<open>[1, 1]\<close> the
  direct comparison finds both predictions correct (the correctness sequence
  \<open>[1, 1]\<close>), and the book's helper \<open>Classification.accuracy\<close> returns the
  accuracy 1. The notebook's helper \<open>Classifier.accuracy\<close> does not: it takes the
  argmax of the sequence and returns the correctness sequence \<open>[0, 0]\<close> and the
  accuracy 0, and the accuracy 0 also on the single prediction \<open>[1]\<close> with the label
  \<open>[1]\<close>.
\<close>

theorem Classifier_accuracy_flat_labels:
  "correctness Int64 [1, 1] [1, 1] = \<lparr>shape = [2], dtype = Float32, data = [1, 1]\<rparr> \<and>
   Classification_accuracy \<lparr>shape = [2], dtype = Int64, data = [1, 1]\<rparr>
       \<lparr>shape = [2], dtype = Int64, data = [1, 1]\<rparr>
     = Inr (Averaged (Value 1)) \<and>
   Classifier_accuracy \<lparr>shape = [2], dtype = Int64, data = [1, 1]\<rparr>
       \<lparr>shape = [2], dtype = Int64, data = [1, 1]\<rparr> False
     = Inr (Elementwise \<lparr>shape = [2], dtype = Float32, data = [0, 0]\<rparr>) \<and>
   Classifier_accuracy \<lparr>shape = [2], dtype = Int64, data = [1, 1]\<rparr>
       \<lparr>shape = [2], dtype = Int64, data = [1, 1]\<rparr> True
     = Inr (Averaged (Value 0)) \<and>
   Classifier_accuracy \<lparr>shape = [1], dtype = Int64, data = [1]\<rparr>
       \<lparr>shape = [1], dtype = Int64, data = [1]\<rparr> True
     = Inr (Averaged (Value 0))"
  by code_simp

section \<open>Properties of mean imputation\<close>

text \<open>
  Filling a column with a value \<open>m\<close> leaves no entry missing; the sum of the filled
  column is the sum of the entries that were present plus \<open>m\<close> for each missing one.
\<close>

lemma present_Nil [simp]: "present [] = []"
  by (simp add: present_def)























end
